theory Spec2Isabelle
  imports Complex_Main "HOL-Library.Sublist"
begin

section \<open>JavaScript strings and numbers\<close>

text \<open>
  Strings are lists of characters. \<open>toLowerCase\<close> is modelled on the ASCII letters; every
  other character is left as it is (no character other than \<open>M\<close> and \<open>m\<close> lower-cases to
  a string that starts with \<open>m\<close>, which is all the budget calculator looks at).
  JavaScript numbers are modelled as exact reals; \<open>Math.round\<close> rounds half up.
\<close>

definition toLowerCaseChar :: "char \<Rightarrow> char" where
  "toLowerCaseChar c =
     (if 65 \<le> (of_char c :: nat) \<and> (of_char c :: nat) \<le> 90
      then char_of ((of_char c :: nat) + 32) else c)"

definition toLowerCase :: "string \<Rightarrow> string" where
  "toLowerCase s = map toLowerCaseChar s"

definition startsWith :: "string \<Rightarrow> string \<Rightarrow> bool" where
  "startsWith s p = (take (length p) s = p)"

definition Math_round :: "real \<Rightarrow> int" where
  "Math_round x = \<lfloor>x + 1 / 2\<rfloor>"

section \<open>Budget calculator\<close>

datatype activity = Sedentary | Light | Moderate | Intense

text \<open>\<open>wwPoints && wwPoints > 0\<close>: an absent argument and the number 0 are falsy.\<close>

definition wwPointsPositive :: "real option \<Rightarrow> bool" where
  "wwPointsPositive wwPoints =
     (case wwPoints of None \<Rightarrow> False | Some p \<Rightarrow> p \<noteq> 0 \<and> p > 0)"

definition activityFactor :: "activity \<Rightarrow> real" where
  "activityFactor a =
     (if a = Sedentary then 1.2 else if a = Light then 1.375
      else if a = Moderate then 1.55 else 1.725)"

definition computeDailyDuby :: "real \<Rightarrow> activity \<Rightarrow> real option \<Rightarrow> real" where
  "computeDailyDuby bmr a wwPoints =
     (if wwPointsPositive wwPoints then the wwPoints * 9 + 2
      else (let factor = activityFactor a; tdee = bmr * factor
            in of_int (Math_round (tdee / 300))))"

definition isMale :: "string \<Rightarrow> bool" where
  "isMale gender = startsWith (toLowerCase gender) ''m''"

definition estimateWWPoints :: "string \<Rightarrow> real \<Rightarrow> real \<Rightarrow> real \<Rightarrow> real" where
  "estimateWWPoints gender age heightCm weightKg =
     (let pts = 0;
          pts = pts + (if isMale gender then 15 else 7);
          pts = pts + (if weightKg \<ge> 90 then 5 else if weightKg \<ge> 75 then 4
                       else if weightKg \<ge> 60 then 3 else 2);
          pts = pts + (if heightCm \<ge> 175 then 2 else if heightCm \<ge> 160 then 1 else 0);
          pts = pts + (if age < 26 then 4 else if age < 37 then 3
                       else if age < 47 then 2 else if age < 58 then 1 else 0)
      in pts)"

text \<open>The Mifflin-St Jeor figure the profile handler computes before it calls the calculator.\<close>

definition profileBmr :: "string \<Rightarrow> real \<Rightarrow> real \<Rightarrow> real \<Rightarrow> real" where
  "profileBmr gender age heightCm weightKg =
     (if isMale gender
      then 10 * weightKg + 6.25 * heightCm - 5 * age + 5
      else 10 * weightKg + 6.25 * heightCm - 5 * age - 161)"

text \<open>The value \<open>daily\<close> of the profile handler.\<close>

definition profileDaily :: "string \<Rightarrow> real \<Rightarrow> real \<Rightarrow> real \<Rightarrow> activity \<Rightarrow> real" where
  "profileDaily gender age heightCm weightKg a =
     (let bmr = profileBmr gender age heightCm weightKg;
          ww = estimateWWPoints gender age heightCm weightKg
      in computeDailyDuby bmr a (Some ww))"

subsection \<open>The calculator as the specification words it\<close>

definition spec_first_is_m :: "string \<Rightarrow> bool" where
  "spec_first_is_m gender =
     (case gender of [] \<Rightarrow> False | c # _ \<Rightarrow> c = CHR ''m'' \<or> c = CHR ''M'')"

definition spec_score :: "string \<Rightarrow> real \<Rightarrow> real \<Rightarrow> real \<Rightarrow> real" where
  "spec_score gender age heightCm weightKg =
     (if spec_first_is_m gender then 15 else 7)
     + (if weightKg \<ge> 90 then 5 else if weightKg \<ge> 75 then 4 else if weightKg \<ge> 60 then 3 else 2)
     + (if heightCm \<ge> 175 then 2 else if heightCm \<ge> 160 then 1 else 0)
     + (if age < 26 then 4 else if age < 37 then 3 else if age < 47 then 2
        else if age < 58 then 1 else 0)"

fun spec_activity_factor :: "activity \<Rightarrow> real" where
  "spec_activity_factor Sedentary = 1.2"
| "spec_activity_factor Light = 1.375"
| "spec_activity_factor Moderate = 1.55"
| "spec_activity_factor Intense = 1.725"

definition spec_bmr :: "string \<Rightarrow> real \<Rightarrow> real \<Rightarrow> real \<Rightarrow> real" where
  "spec_bmr gender age heightCm weightKg =
     10 * weightKg + 6.25 * heightCm - 5 * age + (if spec_first_is_m gender then 5 else - 161)"

definition spec_budget :: "string \<Rightarrow> real \<Rightarrow> real \<Rightarrow> real \<Rightarrow> activity \<Rightarrow> real" where
  "spec_budget gender age heightCm weightKg a =
     (if spec_score gender age heightCm weightKg > 0
      then spec_score gender age heightCm weightKg * 9 + 2
      else of_int (Math_round (spec_bmr gender age heightCm weightKg
                                 * spec_activity_factor a / 300)))"


section \<open>Spreadsheet cells and the JavaScript engine\<close>

text \<open>
  A cell as the spreadsheet service returns it (JSON): a number, a string, a boolean, or nothing.
  A number that may be \<open>NaN\<close> is a \<open>jsnum\<close>.
\<close>

datatype cell = CNum real | CStr string | CBool bool | CEmpty

datatype jsnum = NaN | Num real

text \<open>A \<open>Date\<close> object holds a time value: milliseconds since the epoch, or \<open>NaN\<close>.\<close>

datatype Date = InvalidDate | DateMs int

text \<open>
  What the program takes from its JavaScript engine and is not written in the repository:
  the offset of the local time zone (in milliseconds, taken as fixed), the native parser behind
  \<open>new Date(string)\<close>, and the conversions between numbers and strings.
\<close>

record engine =
  tzOffset :: int
  dateParse :: "string \<Rightarrow> Date"
  numberOfString :: "string \<Rightarrow> jsnum"
  stringOfNumber :: "real \<Rightarrow> string"

definition truthy :: "cell \<Rightarrow> bool" where
  "truthy v = (case v of CNum n \<Rightarrow> n \<noteq> 0 | CStr s \<Rightarrow> s \<noteq> [] | CBool b \<Rightarrow> b | CEmpty \<Rightarrow> False)"

text \<open>\<open>String(v || '')\<close>\<close>

definition stringOrEmpty :: "engine \<Rightarrow> cell \<Rightarrow> string" where
  "stringOrEmpty e v =
     (if truthy v
      then (case v of CNum n \<Rightarrow> stringOfNumber e n | CStr s \<Rightarrow> s
            | CBool b \<Rightarrow> ''true'' | CEmpty \<Rightarrow> [])
      else [])"

text \<open>\<open>Number(v || 0)\<close>\<close>

definition numberOrZero :: "engine \<Rightarrow> cell \<Rightarrow> jsnum" where
  "numberOrZero e v =
     (if truthy v
      then (case v of CNum n \<Rightarrow> Num n | CStr s \<Rightarrow> numberOfString e s
            | CBool b \<Rightarrow> Num 1 | CEmpty \<Rightarrow> Num 0)
      else Num 0)"

text \<open>\<open>r[0]\<close>, \<open>r[1]\<close>, ...: reading past the end of an array gives \<open>undefined\<close>.\<close>

definition cellAt :: "cell list \<Rightarrow> nat \<Rightarrow> cell" where
  "cellAt r i = (if i < length r then r ! i else CEmpty)"

section \<open>Dates\<close>

definition msPerDay :: int where
  "msPerDay = 86400000"

text \<open>\<open>new Date(ms)\<close>: a time value beyond 8.64e15 milliseconds is not a date.\<close>

definition newDateMs :: "int \<Rightarrow> Date" where
  "newDateMs ms = (if \<bar>ms\<bar> \<le> 8640000000000000 then DateMs ms else InvalidDate)"

text \<open>
  The calendar of the \<open>Date\<close> object (proleptic Gregorian): the day number of a civil date,
  counted from 1 January 1970, and back. Months are 1 to 12 here.
\<close>

definition daysFromCivil :: "int \<Rightarrow> int \<Rightarrow> int \<Rightarrow> int" where
  "daysFromCivil y0 m d =
     (let y = (if m \<le> 2 then y0 - 1 else y0);
          era = y div 400;
          yoe = y - era * 400;
          doy = (153 * (if m > 2 then m - 3 else m + 9) + 2) div 5 + d - 1;
          doe = yoe * 365 + yoe div 4 - yoe div 100 + doy
      in era * 146097 + doe - 719468)"

definition civilFromDays :: "int \<Rightarrow> int \<times> int \<times> int" where
  "civilFromDays z0 =
     (let z = z0 + 719468;
          era = z div 146097;
          doe = z - era * 146097;
          yoe = (doe - doe div 1460 + doe div 36524 - doe div 146096) div 365;
          y = yoe + era * 400;
          doy = doe - (365 * yoe + yoe div 4 - yoe div 100);
          mp = (5 * doy + 2) div 153;
          d = doy - (153 * mp + 2) div 5 + 1;
          m = (if mp < 10 then mp + 3 else mp - 9)
      in (if m \<le> 2 then y + 1 else y, m, d))"

text \<open>\<open>new Date(year, monthIndex, day)\<close>: local midnight; months and days out of range carry over.\<close>

definition newDateYMD :: "engine \<Rightarrow> int \<Rightarrow> int \<Rightarrow> int \<Rightarrow> Date" where
  "newDateYMD e year monthIndex day =
     (let yr = (if 0 \<le> year \<and> year \<le> 99 then 1900 + year else year);
          ym = yr + monthIndex div 12;
          mn = monthIndex mod 12;
          dayNumber = daysFromCivil ym (mn + 1) 1 + day - 1
      in newDateMs (dayNumber * msPerDay - tzOffset e))"

text \<open>The local-time getters; on an invalid date they give \<open>NaN\<close> (here \<open>None\<close>).\<close>

definition localCivil :: "engine \<Rightarrow> int \<Rightarrow> int \<times> int \<times> int" where
  "localCivil e t = civilFromDays ((t + tzOffset e) div msPerDay)"

definition getFullYear :: "engine \<Rightarrow> Date \<Rightarrow> int option" where
  "getFullYear e d = (case d of InvalidDate \<Rightarrow> None | DateMs t \<Rightarrow> Some (fst (localCivil e t)))"

definition getMonth :: "engine \<Rightarrow> Date \<Rightarrow> int option" where
  "getMonth e d = (case d of InvalidDate \<Rightarrow> None | DateMs t \<Rightarrow> Some (fst (snd (localCivil e t)) - 1))"

definition getDate :: "engine \<Rightarrow> Date \<Rightarrow> int option" where
  "getDate e d = (case d of InvalidDate \<Rightarrow> None | DateMs t \<Rightarrow> Some (snd (snd (localCivil e t))))"

text \<open>\<open>===\<close> on numbers: \<open>NaN\<close> equals nothing.\<close>

definition strictEq :: "int option \<Rightarrow> int option \<Rightarrow> bool" where
  "strictEq a b = (case a of None \<Rightarrow> False | Some x \<Rightarrow> (case b of None \<Rightarrow> False | Some y \<Rightarrow> x = y))"

definition sameDay :: "engine \<Rightarrow> Date \<Rightarrow> Date \<Rightarrow> bool" where
  "sameDay e a b =
     (strictEq (getFullYear e a) (getFullYear e b)
      \<and> strictEq (getMonth e a) (getMonth e b)
      \<and> strictEq (getDate e a) (getDate e b))"

definition serialToDate :: "real \<Rightarrow> Date" where
  "serialToDate n = (let ms = Math_round ((n - 25569) * 86400) * 1000 in newDateMs ms)"

subsection \<open>The pattern \<open>^(\d{1,2})[\/\-](\d{1,2})[\/\-](\d{2,4})$\<close>\<close>

definition isDigit :: "char \<Rightarrow> bool" where
  "isDigit c = (48 \<le> (of_char c :: nat) \<and> (of_char c :: nat) \<le> 57)"

definition digitVal :: "char \<Rightarrow> nat" where
  "digitVal c = (of_char c :: nat) - 48"

text \<open>\<open>Number\<close> of a string of decimal digits.\<close>

definition numberOfDigits :: "string \<Rightarrow> nat" where
  "numberOfDigits s = foldl (\<lambda>acc c. acc * 10 + digitVal c) 0 s"

definition isSep :: "char \<Rightarrow> bool" where
  "isSep c = (c = CHR ''/'' \<or> c = CHR ''-'')"

definition matchSlashDate :: "string \<Rightarrow> (nat \<times> nat \<times> nat) option" where
  "matchSlashDate s =
     (let g1 = takeWhile isDigit s; r1 = dropWhile isDigit s in
      if length g1 < 1 \<or> length g1 > 2 then None else
      (case r1 of [] \<Rightarrow> None | s1 # t1 \<Rightarrow>
        if \<not> isSep s1 then None else
        (let g2 = takeWhile isDigit t1; r2 = dropWhile isDigit t1 in
         if length g2 < 1 \<or> length g2 > 2 then None else
         (case r2 of [] \<Rightarrow> None | s2 # g3 \<Rightarrow>
           if \<not> isSep s2 then None else
           if length g3 < 2 \<or> length g3 > 4 \<or> \<not> list_all isDigit g3 then None
           else Some (numberOfDigits g1, numberOfDigits g2, numberOfDigits g3)))))"

definition isValidDate :: "Date \<Rightarrow> bool" where
  "isValidDate d = (d \<noteq> InvalidDate)"

definition parseAnyDateValue :: "engine \<Rightarrow> cell \<Rightarrow> Date option" where
  "parseAnyDateValue e v =
     (case v of CNum n \<Rightarrow> Some (serialToDate n)
      | _ \<Rightarrow>
        (let s = stringOrEmpty e v in
         if s = [] then None else
         (let d1 = dateParse e s in
          if isValidDate d1 then Some d1 else
          (case matchSlashDate s of
             Some (a, b, c) \<Rightarrow>
               (let dmy = newDateYMD e (if c < 100 then 2000 + int c else int c) (int b - 1) (int a) in
                if isValidDate dmy then Some dmy else
                (let mdy = newDateYMD e (if c < 100 then 2000 + int c else int c) (int a - 1) (int b) in
                 if isValidDate mdy then Some mdy else None))
           | None \<Rightarrow> None))))"


section \<open>The spreadsheet service\<close>

text \<open>
  The spreadsheet is an external service. Its state is modelled by the tabs (title, sheet id,
  the general-information row 2, the budget ledger from row 6 in columns D to H, the progress
  table from row 6 in columns A and B), the position at which the service inserts a cloned tab,
  and how it renders a stored cell in a formatted read. Any request may fail: \<open>outage\<close> says
  which requests (counted by \<open>calls\<close>) do.
\<close>

datatype error = ApiFailure | ApiRejected | TemplateNotFound string | RangeError

record tabData =
  tabTitle :: string
  tabSheetId :: nat
  infoRow :: "cell list"
  ledgerRows :: "cell list list"
  progressRows :: "cell list list"

record sheets =
  outage :: "nat \<Rightarrow> bool"
  calls :: nat
  tabs :: "tabData list"
  insertAt :: nat
  render :: "cell \<Rightarrow> cell"

type_synonym 'a io = "sheets \<Rightarrow> (error + 'a) \<times> sheets"

definition io_return :: "'a \<Rightarrow> 'a io" where
  "io_return x = (\<lambda>s. (Inr x, s))"

definition io_throw :: "error \<Rightarrow> 'a io" where
  "io_throw err = (\<lambda>s. (Inl err, s))"

definition io_bind :: "'a io \<Rightarrow> ('a \<Rightarrow> 'b io) \<Rightarrow> 'b io" where
  "io_bind m f = (\<lambda>s. case m s of (Inl err, s') \<Rightarrow> (Inl err, s') | (Inr x, s') \<Rightarrow> f x s')"

text \<open>One request to the service: it is counted, and fails when the service is out.\<close>

definition tick :: "sheets \<Rightarrow> sheets" where
  "tick s = s\<lparr>calls := Suc (calls s)\<rparr>"

definition apiRequest :: "'a io \<Rightarrow> 'a io" where
  "apiRequest serve =
     (\<lambda>s. if outage s (calls s) then (Inl ApiFailure, tick s) else serve (tick s))"

definition findTab :: "sheets \<Rightarrow> string \<Rightarrow> tabData option" where
  "findTab s t = find (\<lambda>x. tabTitle x = t) (tabs s)"

definition updateTab :: "string \<Rightarrow> (tabData \<Rightarrow> tabData) \<Rightarrow> sheets \<Rightarrow> sheets" where
  "updateTab t f s = s\<lparr>tabs := map (\<lambda>x. if tabTitle x = t then f x else x) (tabs s)\<rparr>"

text \<open>The ranges the program reads: \<open>D6:H1000\<close> and \<open>D6:D1000\<close> hold 995 rows.\<close>

datatype a1range = RangeH2 string | RangeLedger string | RangeLedgerDates string

definition rangeTab :: "a1range \<Rightarrow> string" where
  "rangeTab r = (case r of RangeH2 t \<Rightarrow> t | RangeLedger t \<Rightarrow> t | RangeLedgerDates t \<Rightarrow> t)"

definition storedValues :: "a1range \<Rightarrow> tabData \<Rightarrow> cell list list" where
  "storedValues r t =
     (case r of
        RangeH2 _ \<Rightarrow> (if cellAt (infoRow t) 7 = CEmpty then [] else [[cellAt (infoRow t) 7]])
      | RangeLedger _ \<Rightarrow> take 995 (ledgerRows t)
      | RangeLedgerDates _ \<Rightarrow> map (take 1) (take 995 (ledgerRows t)))"

definition valuesGet :: "bool \<Rightarrow> a1range \<Rightarrow> (cell list list) io" where
  "valuesGet formatted r =
     (\<lambda>s. case findTab s (rangeTab r) of
             None \<Rightarrow> (Inl ApiRejected, s)
           | Some t \<Rightarrow>
               (Inr (if formatted then map (map (render s)) (storedValues r t)
                     else storedValues r t), s))"

text \<open>The writes: \<open>values.update\<close> of one ledger row, and \<open>values.append\<close> to a table.\<close>

datatype writeRequest =
    UpdateLedgerRow string nat "cell list"
  | AppendLedgerRow string nat "cell list"
  | AppendProgressRow string nat "cell list"
  | UpdateInfoRow string "cell list"

definition putRow :: "nat \<Rightarrow> cell list \<Rightarrow> cell list list \<Rightarrow> cell list list" where
  "putRow i vs rows = (rows @ replicate (Suc i - length rows) []) [i := vs]"

definition valuesWrite :: "writeRequest \<Rightarrow> unit io" where
  "valuesWrite w =
     (\<lambda>s. case w of
        UpdateLedgerRow t k vs \<Rightarrow>
          (if findTab s t = None \<or> k < 6 then (Inl ApiRejected, s)
           else (Inr (), updateTab t (\<lambda>x. x\<lparr>ledgerRows := putRow (k - 6) vs (ledgerRows x)\<rparr>) s))
      | AppendLedgerRow t k vs \<Rightarrow>
          (if findTab s t = None then (Inl ApiRejected, s)
           else (Inr (), updateTab t (\<lambda>x. x\<lparr>ledgerRows := ledgerRows x @ [vs]\<rparr>) s))
      | AppendProgressRow t k vs \<Rightarrow>
          (if findTab s t = None then (Inl ApiRejected, s)
           else (Inr (), updateTab t (\<lambda>x. x\<lparr>progressRows := progressRows x @ [vs]\<rparr>) s))
      | UpdateInfoRow t vs \<Rightarrow>
          (if findTab s t = None then (Inl ApiRejected, s)
           else (Inr (), updateTab t (\<lambda>x. x\<lparr>infoRow := vs\<rparr>) s)))"

text \<open>\<open>duplicateSheet\<close>: a copy of the source tab under a new title and a new sheet id.\<close>

definition freshSheetId :: "tabData list \<Rightarrow> nat" where
  "freshSheetId ts = Suc (foldr max (map tabSheetId ts) 0)"

definition duplicateSheet :: "nat \<Rightarrow> string \<Rightarrow> unit io" where
  "duplicateSheet sourceSheetId newSheetName =
     (\<lambda>s. case find (\<lambda>x. tabSheetId x = sourceSheetId) (tabs s) of
             None \<Rightarrow> (Inl ApiRejected, s)
           | Some src \<Rightarrow>
               (if newSheetName \<in> set (map tabTitle (tabs s)) then (Inl ApiRejected, s)
                else (let new = src\<lparr>tabTitle := newSheetName, tabSheetId := freshSheetId (tabs s)\<rparr>
                      in (Inr (), s\<lparr>tabs := take (insertAt s) (tabs s) @ [new]
                                               @ drop (insertAt s) (tabs s)\<rparr>))))"

section \<open>The spreadsheet adapter\<close>

definition readDailyBudget :: "engine \<Rightarrow> string \<Rightarrow> real io" where
  "readDailyBudget e tabTitle' =
     io_bind (apiRequest (valuesGet True (RangeH2 tabTitle'))) (\<lambda>values.
       let v = (case cellAt (case values of [] \<Rightarrow> [] | r # _ \<Rightarrow> r) 0 of
                  CEmpty \<Rightarrow> [] | CStr x \<Rightarrow> x | CNum n \<Rightarrow> stringOfNumber e n
                | CBool b \<Rightarrow> (if b then ''true'' else ''false''));
           n = numberOfString e v
       in io_return (case n of NaN \<Rightarrow> 0 | Num x \<Rightarrow> x))"

text \<open>The titles of the tabs, without the empty ones (\<open>filter(Boolean)\<close>).\<close>

definition titlesOf :: "sheets \<Rightarrow> string list" where
  "titlesOf s = filter (\<lambda>t. t \<noteq> []) (map tabTitle (tabs s))"

definition listSheetTitles :: "(string list) io" where
  "listSheetTitles = apiRequest (\<lambda>s. (Inr (titlesOf s), s))"

definition getSheetIdByTitle :: "string \<Rightarrow> (nat option) io" where
  "getSheetIdByTitle t =
     apiRequest (\<lambda>s. (Inr (map_option tabSheetId (find (\<lambda>x. tabTitle x = t) (tabs s))), s))"

subsection \<open>Tab titles\<close>

definition isForbidden :: "char \<Rightarrow> bool" where
  "isForbidden c = (c = CHR '':'' \<or> c = CHR 0x5C \<or> c = CHR ''/'' \<or> c = CHR ''?''
                    \<or> c = CHR ''*'' \<or> c = CHR ''['' \<or> c = CHR '']'')"

text \<open>\<open>\s\<close> on ASCII: tab, line feed, vertical tab, form feed, carriage return, space.\<close>

definition isSpace :: "char \<Rightarrow> bool" where
  "isSpace c = ((9 \<le> (of_char c :: nat) \<and> (of_char c :: nat) \<le> 13) \<or> c = CHR '' '')"

function collapseSpaces :: "string \<Rightarrow> string" where
  "collapseSpaces [] = []"
| "collapseSpaces (c # cs) =
     (if isSpace c then CHR '' '' # collapseSpaces (dropWhile isSpace cs)
      else c # collapseSpaces cs)"
  by pat_completeness auto
termination
  by (relation "measure length") (auto simp: less_Suc_eq_le length_dropWhile_le)

definition trim :: "string \<Rightarrow> string" where
  "trim s = rev (dropWhile isSpace (rev (dropWhile isSpace s)))"

definition sanitizeSheetTitle :: "string \<Rightarrow> string" where
  "sanitizeSheetTitle input =
     (let t = trim (collapseSpaces (map (\<lambda>c. if isForbidden c then CHR '' '' else c) input));
          t = (if t = [] then ''User'' else t);
          t = (if length t > 80 then take 80 t else t)
      in t)"

subsection \<open>Numbered titles\<close>

definition digitChar :: "nat \<Rightarrow> char" where
  "digitChar d = char_of (48 + d)"

fun showNat :: "nat \<Rightarrow> string" where
  "showNat n = (if n < 10 then [digitChar n] else showNat (n div 10) @ [digitChar (n mod 10)])"

declare showNat.simps [simp del]

definition numbered :: "string \<Rightarrow> nat \<Rightarrow> string" where
  "numbered base i = base @ '' ('' @ showNat i @ '')''"


text \<open>
  The loop \<open>while (titles.includes(`${base} (${i})`)) i++\<close> ends, since the numbered titles
  are pairwise different and \<open>titles\<close> is finite.
\<close>

lemma digitVal_digitChar: "d < 10 \<Longrightarrow> digitVal (digitChar d) = d"
  by (simp add: digitVal_def digitChar_def)

lemma numberOfDigits_snoc: "numberOfDigits (s @ [c]) = numberOfDigits s * 10 + digitVal c"
  by (simp add: numberOfDigits_def)

lemma numberOfDigits_showNat: "numberOfDigits (showNat n) = n"
proof (induction n rule: showNat.induct)
  case (1 n)
  show ?case
  proof (cases "n < 10")
    case True
    then show ?thesis
      by (simp add: showNat.simps [of n] numberOfDigits_def digitVal_digitChar)
  next
    case False
    then have "numberOfDigits (showNat n) = numberOfDigits (showNat (n div 10)) * 10 + n mod 10"
      by (simp add: showNat.simps [of n] numberOfDigits_snoc digitVal_digitChar)
    with False 1 show ?thesis by simp
  qed
qed

lemma showNat_inj: "showNat i = showNat j \<Longrightarrow> i = j"
  by (metis numberOfDigits_showNat)

lemma numbered_inj: "numbered base i = numbered base j \<Longrightarrow> i = j"
  by (simp add: numbered_def showNat_inj)

lemma finite_numbered: "finite {j. numbered base j \<in> set titles}"
proof -
  have "inj (numbered base)"
    by (rule injI) (rule numbered_inj)
  then have "finite (numbered base -` set titles)"
    by (rule finite_vimageI [OF finite_set])
  then show ?thesis by (simp add: vimage_def)
qed

function uniqueTitle_loop :: "string list \<Rightarrow> string \<Rightarrow> nat \<Rightarrow> nat" where
  "uniqueTitle_loop titles base i =
     (if numbered base i \<in> set titles then uniqueTitle_loop titles base (Suc i) else i)"
  by pat_completeness auto
termination
proof (relation "measure (\<lambda>(titles, base, i). card {j. i \<le> j \<and> numbered base j \<in> set titles})")
  show "wf (measure (\<lambda>(titles, base, i). card {j. i \<le> j \<and> numbered base j \<in> set titles}))"
    by simp
next
  fix titles :: "string list" and base :: string and i :: nat
  assume mem: "numbered base i \<in> set titles"
  have fin: "finite {j. i \<le> j \<and> numbered base j \<in> set titles}"
    using finite_numbered [of base titles] by simp
  have "{j. Suc i \<le> j \<and> numbered base j \<in> set titles}
          \<subset> {j. i \<le> j \<and> numbered base j \<in> set titles}"
  proof
    show "{j. Suc i \<le> j \<and> numbered base j \<in> set titles}
            \<subseteq> {j. i \<le> j \<and> numbered base j \<in> set titles}"
      by auto
    have "i \<in> {j. i \<le> j \<and> numbered base j \<in> set titles}"
      using mem by simp
    moreover have "i \<notin> {j. Suc i \<le> j \<and> numbered base j \<in> set titles}"
      by simp
    ultimately show "{j. Suc i \<le> j \<and> numbered base j \<in> set titles}
            \<noteq> {j. i \<le> j \<and> numbered base j \<in> set titles}"
      by blast
  qed
  then have "card {j. Suc i \<le> j \<and> numbered base j \<in> set titles}
               < card {j. i \<le> j \<and> numbered base j \<in> set titles}"
    using fin by (rule psubset_card_mono [rotated])
  then show "((titles, base, Suc i), (titles, base, i))
               \<in> measure (\<lambda>(titles, base, i). card {j. i \<le> j \<and> numbered base j \<in> set titles})"
    by simp
qed

declare uniqueTitle_loop.simps [simp del]


definition uniqueTitle :: "string \<Rightarrow> string io" where
  "uniqueTitle base =
     io_bind listSheetTitles (\<lambda>titles.
       if base \<notin> set titles then io_return base
       else io_return (numbered base (uniqueTitle_loop titles base 1)))"

definition duplicateUserTemplate :: "string \<Rightarrow> string \<Rightarrow> string io" where
  "duplicateUserTemplate userName templateName =
     io_bind (getSheetIdByTitle templateName) (\<lambda>sourceSheetId.
       case sourceSheetId of
         None \<Rightarrow> io_throw (TemplateNotFound templateName)
       | Some src \<Rightarrow>
           (let baseTitle = sanitizeSheetTitle userName in
            io_bind (uniqueTitle baseTitle) (\<lambda>newTitle.
              io_bind (apiRequest (duplicateSheet src newTitle)) (\<lambda>_.
                io_return newTitle))))"

text \<open>The test \<open>t === baseTitle || t.startsWith(`${baseTitle} (`)\<close>.\<close>

definition isMatch :: "string \<Rightarrow> string \<Rightarrow> bool" where
  "isMatch baseTitle t = (t = baseTitle \<or> startsWith t (baseTitle @ '' (''))"

definition ensureUserTab :: "string \<Rightarrow> string \<Rightarrow> string io" where
  "ensureUserTab userName templateName =
     (let baseTitle = sanitizeSheetTitle userName in
      io_bind listSheetTitles (\<lambda>titles.
        case find (isMatch baseTitle) titles of
          Some exact \<Rightarrow>
            (if exact \<noteq> [] then io_return exact
             else duplicateUserTemplate userName templateName)
        | None \<Rightarrow> duplicateUserTemplate userName templateName))"

definition writeGeneralInfo ::
  "string \<Rightarrow> string \<Rightarrow> real \<Rightarrow> real \<Rightarrow> string \<Rightarrow> real \<Rightarrow> real \<Rightarrow> string option
     \<Rightarrow> real option \<Rightarrow> unit io" where
  "writeGeneralInfo tabTitle' name' heightCm startWeightKg gender age targetWeightKg
       targetDateIso dailyBudget' =
     (let values = [CStr name', CNum heightCm, CNum startWeightKg, CStr gender, CNum age,
                    CNum targetWeightKg,
                    CStr (case targetDateIso of None \<Rightarrow> [] | Some d \<Rightarrow> d),
                    (case dailyBudget' of None \<Rightarrow> CStr [] | Some b \<Rightarrow> CNum b)]
      in apiRequest (valuesWrite (UpdateInfoRow tabTitle' values)))"

subsection \<open>The budget ledger\<close>

record BudgetRow =
  surplus :: jsnum
  price :: jsnum
  food :: string
  dailyBudget :: jsnum
  date :: string

definition toBudgetRow :: "engine \<Rightarrow> cell list \<Rightarrow> BudgetRow" where
  "toBudgetRow e r =
     \<lparr>surplus = numberOrZero e (cellAt r 4),
      price = numberOrZero e (cellAt r 3),
      food = stringOrEmpty e (cellAt r 2),
      dailyBudget = numberOrZero e (cellAt r 1),
      date = stringOrEmpty e (cellAt r 0)\<rparr>"

text \<open>\<open>d && sameDay(d, today)\<close> on the first cell of a row.\<close>

definition rowMatches :: "engine \<Rightarrow> Date \<Rightarrow> cell list \<Rightarrow> bool" where
  "rowMatches e today r =
     (case parseAnyDateValue e (cellAt r 0) of None \<Rightarrow> False | Some d \<Rightarrow> sameDay e d today)"

fun scanBudgetToday :: "engine \<Rightarrow> Date \<Rightarrow> cell list list \<Rightarrow> BudgetRow option" where
  "scanBudgetToday e today [] = None"
| "scanBudgetToday e today (r # rs) =
     (if rowMatches e today r then Some (toBudgetRow e r) else scanBudgetToday e today rs)"

definition findBudgetToday :: "engine \<Rightarrow> string \<Rightarrow> Date \<Rightarrow> (BudgetRow option) io" where
  "findBudgetToday e tabTitle' today =
     io_bind (apiRequest (valuesGet True (RangeLedger tabTitle'))) (\<lambda>rows.
       io_return (scanBudgetToday e today rows))"

fun scanBudgetRowIndex :: "engine \<Rightarrow> Date \<Rightarrow> cell list list \<Rightarrow> nat \<Rightarrow> nat option" where
  "scanBudgetRowIndex e today [] i = None"
| "scanBudgetRowIndex e today (r # rs) i =
     (if rowMatches e today r then Some (6 + i) else scanBudgetRowIndex e today rs (Suc i))"

definition findBudgetRowIndex :: "engine \<Rightarrow> string \<Rightarrow> Date \<Rightarrow> (nat option) io" where
  "findBudgetRowIndex e tabTitle' today =
     io_bind (apiRequest (valuesGet False (RangeLedgerDates tabTitle'))) (\<lambda>rows.
       io_return (scanBudgetRowIndex e today rows 0))"

text \<open>The request \<open>upsertBudgetRow\<close> sends once it knows the row index.\<close>

definition upsertRequest ::
  "string \<Rightarrow> string \<Rightarrow> real \<Rightarrow> real \<Rightarrow> string \<Rightarrow> nat option \<Rightarrow> writeRequest" where
  "upsertRequest tabTitle' dateIso dailyBudget' price' foodJoined rowIndex =
     (let surplus' = dailyBudget' - price';
          values = [CStr dateIso, CNum dailyBudget', CStr foodJoined, CNum price', CNum surplus']
      in case rowIndex of
           Some k \<Rightarrow> UpdateLedgerRow tabTitle' k values
         | None \<Rightarrow> AppendLedgerRow tabTitle' 6 values)"

definition upsertBudgetRow ::
  "engine \<Rightarrow> string \<Rightarrow> string \<Rightarrow> real \<Rightarrow> real \<Rightarrow> string \<Rightarrow> unit io" where
  "upsertBudgetRow e tabTitle' dateIso dailyBudget' price' foodJoined =
     io_bind (findBudgetRowIndex e tabTitle' (dateParse e dateIso)) (\<lambda>rowIndex.
       apiRequest (valuesWrite
         (upsertRequest tabTitle' dateIso dailyBudget' price' foodJoined rowIndex)))"

definition appendProgressRow :: "string \<Rightarrow> string \<Rightarrow> real \<Rightarrow> unit io" where
  "appendProgressRow tabTitle' dateIso weightKg =
     apiRequest (valuesWrite (AppendProgressRow tabTitle' 6 [CStr dateIso, CNum weightKg]))"


section \<open>The relational store\<close>

text \<open>
  The tables the handlers use. Ids of food items and of log entries are modelled as natural
  numbers, and a created record gets an id that its table does not hold yet. A timestamp column
  holds a valid time value (milliseconds).
\<close>

record User =
  userId :: string
  userName :: string
  userEmail :: string
  userPasswordHash :: string

record Profile =
  profileUserId :: string
  profileHeightCm :: real
  profileCurrentWeightKg :: real
  profileGoalWeightKg :: real
  profileTargetDate :: "int option"
  profileGender :: string
  profileAge :: real
  profileActivityLevel :: activity
  dailyDubyBudget :: real

record FoodItem =
  itemId :: nat
  itemName :: string
  itemDuby :: real
  itemUnit :: string

record FoodLog =
  logId :: nat
  logUserId :: string
  logFoodItemId :: nat
  logPortion :: real
  occurredAt :: int
  dubyCost :: real

record WeightLog =
  weightLogId :: nat
  weightLogUserId :: string
  weightKg :: real
  weightLogDate :: int

record store =
  users :: "User list"
  profiles :: "Profile list"
  foodItems :: "FoodItem list"
  foodLogs :: "FoodLog list"
  weightLogs :: "WeightLog list"

datatype dbError = ForeignKeyViolation | UniqueViolation | InvalidValue

definition freshId :: "nat list \<Rightarrow> nat" where
  "freshId ids = Suc (foldr max ids 0)"

definition findUser :: "store \<Rightarrow> string \<Rightarrow> User option" where
  "findUser st uid = find (\<lambda>u. userId u = uid) (users st)"

text \<open>\<open>prisma.user.upsert\<close> of the demo user, with an empty update.\<close>

definition upsertDemoUser :: "store \<Rightarrow> dbError + store" where
  "upsertDemoUser st =
     (if findUser st ''demo'' \<noteq> None then Inr st
      else if ''demo@example.com'' \<in> set (map userEmail (users st)) then Inl UniqueViolation
      else Inr (st\<lparr>users := users st @
             [\<lparr>userId = ''demo'', userName = ''Demo'', userEmail = ''demo@example.com'',
               userPasswordHash = ''x''\<rparr>]\<rparr>))"

text \<open>Find the food item of that name and update it, or create it; the item's id.\<close>

definition upsertFoodItem :: "store \<Rightarrow> string \<Rightarrow> real \<Rightarrow> string \<Rightarrow> nat \<times> store" where
  "upsertFoodItem st name' duby unit' =
     (case find (\<lambda>i. itemName i = name') (foodItems st) of
        Some existing \<Rightarrow>
          (itemId existing,
           st\<lparr>foodItems := map (\<lambda>i. if itemId i = itemId existing
                                      then i\<lparr>itemDuby := duby, itemUnit := unit'\<rparr> else i)
                                (foodItems st)\<rparr>)
      | None \<Rightarrow>
          (let newId = freshId (map itemId (foodItems st)) in
           (newId, st\<lparr>foodItems := foodItems st @
                     [\<lparr>itemId = newId, itemName = name', itemDuby = duby, itemUnit = unit'\<rparr>]\<rparr>)))"

definition createFoodLog ::
  "store \<Rightarrow> string \<Rightarrow> nat \<Rightarrow> real \<Rightarrow> Date \<Rightarrow> real \<Rightarrow> dbError + (FoodLog \<times> store)" where
  "createFoodLog st uid foodId portion when cost =
     (case when of
        InvalidDate \<Rightarrow> Inl InvalidValue
      | DateMs t \<Rightarrow>
          (if findUser st uid = None then Inl ForeignKeyViolation
           else (let entry = \<lparr>logId = freshId (map logId (foodLogs st)), logUserId = uid,
                               logFoodItemId = foodId, logPortion = portion, occurredAt = t,
                               dubyCost = cost\<rparr>
                 in Inr (entry, st\<lparr>foodLogs := foodLogs st @ [entry]\<rparr>))))"

definition createWeightLog :: "store \<Rightarrow> string \<Rightarrow> real \<Rightarrow> Date \<Rightarrow> dbError + store" where
  "createWeightLog st uid w when =
     (case when of
        InvalidDate \<Rightarrow> Inl InvalidValue
      | DateMs t \<Rightarrow>
          (if findUser st uid = None then Inl ForeignKeyViolation
           else Inr (st\<lparr>weightLogs := weightLogs st @
                      [\<lparr>weightLogId = freshId (map weightLogId (weightLogs st)),
                        weightLogUserId = uid, weightKg = w, weightLogDate = t\<rparr>]\<rparr>)))"

definition upsertProfile :: "store \<Rightarrow> Profile \<Rightarrow> dbError + store" where
  "upsertProfile st p =
     (if findUser st (profileUserId p) = None then Inl ForeignKeyViolation
      else if profileUserId p \<in> set (map profileUserId (profiles st))
      then Inr (st\<lparr>profiles := map (\<lambda>q. if profileUserId q = profileUserId p then p else q)
                                     (profiles st)\<rparr>)
      else Inr (st\<lparr>profiles := profiles st @ [p]\<rparr>))"

text \<open>\<open>findMany\<close> of a user's log entries within \<open>[start, end)\<close>, by time.\<close>

definition dayLogsOf :: "store \<Rightarrow> string \<Rightarrow> int \<Rightarrow> int \<Rightarrow> FoodLog list" where
  "dayLogsOf st uid start end' =
     sort_key occurredAt
       (filter (\<lambda>l. logUserId l = uid \<and> start \<le> occurredAt l \<and> occurredAt l < end')
          (foodLogs st))"

definition foodNameOf :: "store \<Rightarrow> FoodLog \<Rightarrow> string" where
  "foodNameOf st l =
     (case find (\<lambda>i. itemId i = logFoodItemId l) (foodItems st) of
        None \<Rightarrow> [] | Some i \<Rightarrow> itemName i)"

section \<open>Time of day, ISO strings\<close>

text \<open>\<open>d.setHours(0, 0, 0, 0)\<close>: local midnight of the day of \<open>t\<close>.\<close>

definition startOfLocalDay :: "engine \<Rightarrow> int \<Rightarrow> int" where
  "startOfLocalDay e t = ((t + tzOffset e) div msPerDay) * msPerDay - tzOffset e"

definition padZeros :: "nat \<Rightarrow> nat \<Rightarrow> string" where
  "padZeros width n = replicate (width - length (showNat n)) CHR ''0'' @ showNat n"

definition toISOString :: "int \<Rightarrow> string" where
  "toISOString t =
     (let (y, m, d) = civilFromDays (t div msPerDay);
          r = t mod msPerDay;
          year = (if 0 \<le> y \<and> y \<le> 9999 then padZeros 4 (nat y)
                  else (if y < 0 then ''-'' else ''+'') @ padZeros 6 (nat \<bar>y\<bar>))
      in year @ ''-'' @ padZeros 2 (nat m) @ ''-'' @ padZeros 2 (nat d) @ ''T''
         @ padZeros 2 (nat (r div 3600000)) @ '':'' @ padZeros 2 (nat ((r div 60000) mod 60))
         @ '':'' @ padZeros 2 (nat ((r div 1000) mod 60)) @ ''.'' @ padZeros 3 (nat (r mod 1000))
         @ ''Z'')"

definition slice :: "nat \<Rightarrow> nat \<Rightarrow> string \<Rightarrow> string" where
  "slice i j s = take (j - i) (drop i s)"

definition isoDay :: "int \<Rightarrow> string" where
  "isoDay t = slice 0 10 (toISOString t)"

fun joinWith :: "string \<Rightarrow> string list \<Rightarrow> string" where
  "joinWith sep [] = []"
| "joinWith sep [x] = x"
| "joinWith sep (x # y # ys) = x @ sep @ joinWith sep (y # ys)"


section \<open>The request handlers\<close>

record config =
  sheetsId :: string
  serviceAccountJson :: string
  applicationCredentials :: string

definition hasSheetsAuth :: "config \<Rightarrow> bool" where
  "hasSheetsAuth cfg =
     (sheetsId cfg \<noteq> [] \<and> (serviceAccountJson cfg \<noteq> [] \<or> applicationCredentials cfg \<noteq> []))"

text \<open>\<open>sheetId && hasSheetsAuth && user?.name\<close>\<close>

definition mirrorEnabled :: "config \<Rightarrow> User option \<Rightarrow> bool" where
  "mirrorEnabled cfg user =
     (sheetsId cfg \<noteq> [] \<and> hasSheetsAuth cfg
      \<and> (case user of None \<Rightarrow> False | Some u \<Rightarrow> userName u \<noteq> []))"

text \<open>The session of a request: the user id of a verified cookie, if any.\<close>

definition requireUser :: "string option \<Rightarrow> string option" where
  "requireUser session = (case session of None \<Rightarrow> None | Some uid \<Rightarrow> if uid = [] then None else Some uid)"

definition userOrDemo :: "string option \<Rightarrow> string" where
  "userOrDemo session = (case requireUser session of None \<Rightarrow> ''demo'' | Some uid \<Rightarrow> uid)"

record dashItem =
  entryId :: nat
  entryTime :: string
  entryFood :: string
  entryPrice :: real

datatype body =
    BError string
  | BDatabaseError dbError
  | BDaily real
  | BId nat
  | BOk
  | BDashboard jsnum "(string \<times> string \<times> jsnum) list" "dashItem list" string

text \<open>A response, or none when the handler throws outside every \<open>try\<close>.\<close>

datatype response = Response nat body | Unhandled

text \<open>\<open>try { ... } catch {}\<close> around the mirror: only the effect on the spreadsheet is left.\<close>

definition swallow :: "'a io \<Rightarrow> sheets \<Rightarrow> sheets" where
  "swallow m sh = snd (m sh)"

text \<open>\<open>x ? new Date(x) : new Date()\<close>\<close>

definition dateOrNow :: "engine \<Rightarrow> int \<Rightarrow> string option \<Rightarrow> Date" where
  "dateOrNow e now x = (case x of None \<Rightarrow> DateMs now | Some s \<Rightarrow> if s = [] then DateMs now else dateParse e s)"

subsection \<open>PUT /api/me/profile\<close>

record ProfileInput =
  height_cm :: real
  current_weight_kg :: real
  goal_weight_kg :: real
  target_date :: "string option"
  gender_in :: string
  age_in :: real
  activity_level :: activity

definition isInteger :: "real \<Rightarrow> bool" where
  "isInteger x = (x = of_int \<lfloor>x\<rfloor>)"

definition validProfile :: "ProfileInput \<Rightarrow> bool" where
  "validProfile p =
     (isInteger (height_cm p) \<and> 0 < height_cm p \<and> 0 < current_weight_kg p
      \<and> 0 < goal_weight_kg p \<and> isInteger (age_in p) \<and> 0 < age_in p)"

definition mirrorProfile :: "config \<Rightarrow> User option \<Rightarrow> ProfileInput \<Rightarrow> real \<Rightarrow> unit io" where
  "mirrorProfile cfg user p daily =
     (if mirrorEnabled cfg user
      then io_bind (ensureUserTab (userName (the user)) ''UserTemplate'') (\<lambda>tab.
             writeGeneralInfo tab (userName (the user)) (height_cm p) (current_weight_kg p)
               (gender_in p) (age_in p) (goal_weight_kg p) (target_date p) (Some daily))
      else io_return ())"

definition putProfile ::
  "engine \<Rightarrow> config \<Rightarrow> store \<times> sheets \<Rightarrow> string option \<Rightarrow> ProfileInput
     \<Rightarrow> response \<times> store \<times> sheets" where
  "putProfile e cfg db session p =
     (let st = fst db; sh = snd db in
      case requireUser session of
        None \<Rightarrow> (Response 401 (BError ''unauthorized''), st, sh)
      | Some uid \<Rightarrow>
          if \<not> validProfile p then (Response 400 (BError ''Invalid profile''), st, sh)
          else
            (let user = findUser st uid;
                 daily = profileDaily (gender_in p) (age_in p) (height_cm p) (current_weight_kg p)
                           (activity_level p);
                 targetDate = (case target_date p of None \<Rightarrow> Some None
                               | Some s \<Rightarrow> if s = [] then Some None
                                          else (case dateParse e s of InvalidDate \<Rightarrow> None
                                                | DateMs t \<Rightarrow> Some (Some t)))
             in case targetDate of
                  None \<Rightarrow> (Unhandled, st, sh)
                | Some td \<Rightarrow>
                   (case upsertProfile st
                           \<lparr>profileUserId = uid, profileHeightCm = height_cm p,
                            profileCurrentWeightKg = current_weight_kg p,
                            profileGoalWeightKg = goal_weight_kg p, profileTargetDate = td,
                            profileGender = gender_in p, profileAge = age_in p,
                            profileActivityLevel = activity_level p, dailyDubyBudget = daily\<rparr> of
                      Inl err \<Rightarrow> (Unhandled, st, sh)
                    | Inr st' \<Rightarrow>
                        (Response 200 (BDaily daily), st',
                         swallow (mirrorProfile cfg user p daily) sh))))"

subsection \<open>The ledger mirror of the food-log handlers\<close>

definition mirrorLedger :: "engine \<Rightarrow> config \<Rightarrow> store \<Rightarrow> string \<Rightarrow> int \<Rightarrow> unit io" where
  "mirrorLedger e cfg st uid day =
     (let user = findUser st uid in
      if mirrorEnabled cfg user
      then io_bind (ensureUserTab (userName (the user)) ''UserTemplate'') (\<lambda>tab.
             let start = startOfLocalDay e day;
                 end' = start + msPerDay;
                 logs = dayLogsOf st uid start end';
                 foodJoined = joinWith '' | '' (map (foodNameOf st) logs);
                 price' = foldl (\<lambda>acc l. acc + dubyCost l) 0 logs
             in io_bind (readDailyBudget e tab) (\<lambda>dailyBudget'.
                  upsertBudgetRow e tab (isoDay start) dailyBudget' price' foodJoined))
      else io_return ())"

subsection \<open>POST /api/food-log\<close>

record FoodLogInput =
  name_in :: string
  duby_in :: real
  unit_in :: string
  portion_in :: real
  occurred_at :: "string option"

text \<open>\<open>Number(x) || d\<close>\<close>

definition numberOr :: "real \<Rightarrow> real \<Rightarrow> real" where
  "numberOr x d = (if x = 0 then d else x)"

definition postFoodLog ::
  "engine \<Rightarrow> config \<Rightarrow> int \<Rightarrow> store \<times> sheets \<Rightarrow> string option \<Rightarrow> FoodLogInput
     \<Rightarrow> response \<times> store \<times> sheets" where
  "postFoodLog e cfg now db session b =
     (let st = fst db; sh = snd db in
      if \<not> 0 < portion_in b then (Response 400 (BError ''Invalid input''), st, sh)
      else
        (let uid = userOrDemo session in
         case (if uid = ''demo'' then upsertDemoUser st else Inr st) of
           Inl err \<Rightarrow> (Response 500 (BDatabaseError err), st, sh)
         | Inr st1 \<Rightarrow>
             (let (foodId, st2) = upsertFoodItem st1 (name_in b) (duby_in b) (unit_in b) in
              case createFoodLog st2 uid foodId (portion_in b) (dateOrNow e now (occurred_at b))
                     (numberOr (duby_in b) 0 * numberOr (portion_in b) 1) of
                Inl err \<Rightarrow> (Response 500 (BDatabaseError err), st2, sh)
              | Inr (entry, st3) \<Rightarrow>
                  (Response 201 (BId (logId entry)), st3,
                   swallow (mirrorLedger e cfg st3 uid now) sh))))"

subsection \<open>DELETE /api/food-log/:id\<close>

definition deleteFoodLog ::
  "engine \<Rightarrow> config \<Rightarrow> store \<times> sheets \<Rightarrow> string option \<Rightarrow> nat
     \<Rightarrow> response \<times> store \<times> sheets" where
  "deleteFoodLog e cfg db session i =
     (let st = fst db; sh = snd db; uid = userOrDemo session in
      case find (\<lambda>l. logId l = i) (foodLogs st) of
        None \<Rightarrow> (Response 404 (BError ''not found''), st, sh)
      | Some entry \<Rightarrow>
          if logUserId entry \<noteq> uid then (Response 404 (BError ''not found''), st, sh)
          else
            (let st' = st\<lparr>foodLogs := filter (\<lambda>l. logId l \<noteq> i) (foodLogs st)\<rparr>
             in (Response 200 BOk, st',
                 swallow (mirrorLedger e cfg st' uid (occurredAt entry)) sh)))"

subsection \<open>POST /api/weight-log\<close>

record WeightLogInput =
  weight_kg :: real
  date_in :: "string option"

definition mirrorWeight :: "engine \<Rightarrow> config \<Rightarrow> store \<Rightarrow> string \<Rightarrow> Date \<Rightarrow> real \<Rightarrow> unit io" where
  "mirrorWeight e cfg st uid when w =
     (let user = findUser st uid in
      if mirrorEnabled cfg user
      then io_bind (ensureUserTab (userName (the user)) ''UserTemplate'') (\<lambda>tab.
             case when of
               InvalidDate \<Rightarrow> io_throw RangeError
             | DateMs t \<Rightarrow> appendProgressRow tab (isoDay t) w)
      else io_return ())"

definition postWeightLog ::
  "engine \<Rightarrow> config \<Rightarrow> int \<Rightarrow> store \<times> sheets \<Rightarrow> string option \<Rightarrow> WeightLogInput
     \<Rightarrow> response \<times> store \<times> sheets" where
  "postWeightLog e cfg now db session b =
     (let st = fst db; sh = snd db in
      if \<not> 0 < weight_kg b then (Response 400 (BError ''Invalid input''), st, sh)
      else
        (let uid = userOrDemo session in
         case (if uid = ''demo'' then upsertDemoUser st else Inr st) of
           Inl err \<Rightarrow> (Response 500 (BDatabaseError err), st, sh)
         | Inr st1 \<Rightarrow>
             (case createWeightLog st1 uid (weight_kg b) (dateOrNow e now (date_in b)) of
                Inl err \<Rightarrow> (Response 500 (BDatabaseError err), st1, sh)
              | Inr st2 \<Rightarrow>
                  (Response 201 BOk, st2,
                   swallow (mirrorWeight e cfg st2 uid (dateOrNow e now (date_in b))
                              (weight_kg b)) sh))))"

subsection \<open>GET /api/dashboard\<close>

definition dashboardItems :: "engine \<Rightarrow> store \<Rightarrow> string option \<Rightarrow> int \<Rightarrow> dashItem list" where
  "dashboardItems e st session now =
     (let start = startOfLocalDay e now;
          end' = start + msPerDay;
          dayLogs = dayLogsOf st (userOrDemo session) start end'
      in map (\<lambda>l. \<lparr>entryId = logId l, entryTime = slice 11 16 (toISOString (occurredAt l)),
                    entryFood = foodNameOf st l, entryPrice = dubyCost l\<rparr>) dayLogs)"

text \<open>The body of the inner \<open>try\<close>: the new values of \<open>remaining\<close>, \<open>foodList\<close>, \<open>price\<close>.\<close>

definition dashboardFromSheet ::
  "engine \<Rightarrow> config \<Rightarrow> User option \<Rightarrow> int \<Rightarrow> jsnum \<Rightarrow> string \<Rightarrow> real
     \<Rightarrow> (jsnum \<times> string \<times> jsnum) io" where
  "dashboardFromSheet e cfg user now remaining foodList price' =
     (if mirrorEnabled cfg user
      then io_bind (ensureUserTab (userName (the user)) ''UserTemplate'') (\<lambda>tab.
             io_bind (findBudgetToday e tab (DateMs now)) (\<lambda>today.
               case today of
                 Some row \<Rightarrow> io_return (surplus row, food row, price row)
               | None \<Rightarrow>
                   io_bind (readDailyBudget e tab) (\<lambda>dailyBudget'.
                     io_return (Num (dailyBudget' - price'), foodList, Num price'))))
      else io_return (remaining, foodList, Num price'))"

definition nextFriday :: "engine \<Rightarrow> int \<Rightarrow> string" where
  "nextFriday e now =
     (let day = ((now + tzOffset e) div msPerDay + 4) mod 7;
          add = (if (5 - day + 7) mod 7 = 0 then 7 else (5 - day + 7) mod 7)
      in isoDay (now + add * msPerDay))"

definition getDashboard ::
  "engine \<Rightarrow> config \<Rightarrow> int \<Rightarrow> store \<times> sheets \<Rightarrow> string option \<Rightarrow> response \<times> store \<times> sheets" where
  "getDashboard e cfg now db session =
     (let st = fst db; sh = snd db;
          user = (case requireUser session of None \<Rightarrow> None | Some uid \<Rightarrow> findUser st uid);
          items = dashboardItems e st session now;
          remaining = Num 24;
          foodList = joinWith '' | '' (map entryFood items);
          price' = foldl (\<lambda>acc i. acc + entryPrice i) 0 items;
          attempt = dashboardFromSheet e cfg user now remaining foodList price' sh;
          (remaining, foodList, shownPrice) =
             (case fst attempt of Inl err \<Rightarrow> (remaining, foodList, Num price') | Inr r \<Rightarrow> r)
      in (Response 200 (BDashboard remaining [(isoDay now, foodList, shownPrice)] items
                          (nextFriday e now)),
          st, snd attempt))"


section \<open>Tab titles as the specification words them\<close>

text \<open>
  The specification's match of an existing tab: the title is \<open><base>\<close> or is
  \<open><base> (<n>)\<close> for a number \<open>n\<close>, a non-empty string of digits.
\<close>

definition spec_numbered_match :: "string \<Rightarrow> string \<Rightarrow> bool" where
  "spec_numbered_match base t =
     (let p = base @ '' (''; r = drop (length p) t
      in take (length p) t = p \<and> r \<noteq> [] \<and> last r = CHR '')''
         \<and> butlast r \<noteq> [] \<and> list_all isDigit (butlast r))"

definition spec_title_match :: "string \<Rightarrow> string \<Rightarrow> bool" where
  "spec_title_match base t = (t = base \<or> spec_numbered_match base t)"

section \<open>A sample engine, for the examples\<close>





definition templateTab :: tabData where
  "templateTab =
     \<lparr>tabTitle = ''UserTemplate'', tabSheetId = 0, infoRow = [], ledgerRows = [],
      progressRows = []\<rparr>"

definition sampleTab :: "string \<Rightarrow> cell list list \<Rightarrow> tabData" where
  "sampleTab t rows =
     \<lparr>tabTitle = t, tabSheetId = 7,
      infoRow = [CStr ''Ann'', CNum 170, CNum 70, CStr ''f'', CNum 30, CNum 65, CStr [], CNum 218],
      ledgerRows = rows, progressRows = []\<rparr>"

definition sampleSheets :: "tabData list \<Rightarrow> sheets" where
  "sampleSheets ts =
     \<lparr>outage = (\<lambda>k. False), calls = 0, tabs = ts, insertAt = 0, render = (\<lambda>c. c)\<rparr>"

section \<open>Verification: the budget calculator\<close>

lemma char_eq_code: "(c = d) = ((of_char c :: nat) = of_char d)"
  by simp

lemma toLowerCaseChar_m:
  "toLowerCaseChar c = CHR ''m'' \<longleftrightarrow> c = CHR ''m'' \<or> c = CHR ''M''"
proof (cases "65 \<le> (of_char c :: nat) \<and> (of_char c :: nat) \<le> 90")
  case True
  then have "toLowerCaseChar c = char_of ((of_char c :: nat) + 32)"
    by (simp add: toLowerCaseChar_def)
  moreover have "(of_char (char_of ((of_char c :: nat) + 32)) :: nat) = of_char c + 32"
    using True by simp
  ultimately have "(of_char (toLowerCaseChar c) :: nat) = of_char c + 32"
    by simp
  then show ?thesis
    using True by (simp add: char_eq_code [of _ "CHR ''m''"] char_eq_code [of _ "CHR ''M''"])
next
  case False
  then have "toLowerCaseChar c = c"
    by (auto simp: toLowerCaseChar_def)
  then show ?thesis
    using False by (auto simp: char_eq_code [of c "CHR ''M''"])
qed

lemma isMale_spec: "isMale g = spec_first_is_m g"
  by (cases g)
    (auto simp: isMale_def spec_first_is_m_def startsWith_def toLowerCase_def toLowerCaseChar_m)

lemma activityFactor_spec: "activityFactor a = spec_activity_factor a"
  by (cases a) (simp_all add: activityFactor_def)

lemma estimateWWPoints_spec: "estimateWWPoints g age h w = spec_score g age h w"
  by (simp add: estimateWWPoints_def spec_score_def isMale_spec Let_def)

lemma profileBmr_spec: "profileBmr g age h w = spec_bmr g age h w"
  by (simp add: profileBmr_def spec_bmr_def isMale_spec)

lemma spec_score_ge: "9 \<le> spec_score g age h w"
  by (simp add: spec_score_def)

lemma computeDailyDuby_Some:
  "computeDailyDuby bmr a (Some p) =
     (if p > 0 then p * 9 + 2 else of_int (Math_round (bmr * spec_activity_factor a / 300)))"
  by (simp add: computeDailyDuby_def wwPointsPositive_def Let_def activityFactor_spec)

lemma profileDaily_spec: "profileDaily g age h w a = spec_budget g age h w a"
  by (simp add: profileDaily_def computeDailyDuby_Some Let_def spec_budget_def
      estimateWWPoints_spec profileBmr_spec)

lemma spec_first_is_m_male: "spec_first_is_m ''male''"
  by (simp add: spec_first_is_m_def)

text \<open>
  Claim C1. For every gender string, age, height, weight and activity level, the daily budget
  the profile handler computes is the budget of the specification: score times 9 plus 2 when
  the score is positive, else the rounded \<open>BMR * factor / 300\<close> with the factors 1.2, 1.375,
  1.55, 1.725; the score of the code is the sum of the base (15 when the first character is
  \<open>m\<close> or \<open>M\<close>, else 7) and the weight, height and age buckets. For male, 30 years, 175 cm,
  80 kg, light activity the score is 24 and the budget is 218.
\<close>

theorem budget_formula:
  "profileDaily g age h w a = spec_budget g age h w a
   \<and> estimateWWPoints g age h w = spec_score g age h w
   \<and> computeDailyDuby bmr a (Some p) =
       (if p > 0 then p * 9 + 2 else of_int (Math_round (bmr * spec_activity_factor a / 300)))
   \<and> estimateWWPoints ''male'' 30 175 80 = 24
   \<and> profileDaily ''male'' 30 175 80 Light = 218"
  by (simp add: profileDaily_spec estimateWWPoints_spec computeDailyDuby_Some
      spec_budget_def spec_score_def spec_first_is_m_male)

theorem budget_formula_witness:
  "profileDaily ''Female'' 61 150 50 Sedentary = 83
   \<and> estimateWWPoints ''Female'' 61 150 50 = 9
   \<and> computeDailyDuby 1500 Sedentary (Some 0) = 6"
  using budget_formula [of "''Female''" 61 150 50 Sedentary 1500 0]
  by (simp add: spec_budget_def spec_score_def spec_first_is_m_def Math_round_def)

text \<open>
  Claim C2. For every gender string and every positive age, height and weight the score of
  \<open>estimateWWPoints\<close> is positive, so the guard of \<open>computeDailyDuby\<close> holds and the result
  is score times 9 plus 2 whatever the BMR and the activity level are: the fallback is not
  taken.
\<close>

theorem score_positive:
  "0 < age \<Longrightarrow> 0 < h \<Longrightarrow> 0 < w \<Longrightarrow>
     0 < estimateWWPoints g age h w
     \<and> wwPointsPositive (Some (estimateWWPoints g age h w))
     \<and> profileDaily g age h w a = estimateWWPoints g age h w * 9 + 2
     \<and> computeDailyDuby bmr a (Some (estimateWWPoints g age h w))
         = estimateWWPoints g age h w * 9 + 2"
  using spec_score_ge [of g age h w]
  by (simp add: profileDaily_def computeDailyDuby_def wwPointsPositive_def Let_def
      estimateWWPoints_spec)

theorem score_positive_witness:
  "0 < estimateWWPoints ''x'' 99 1 1
   \<and> wwPointsPositive (Some (estimateWWPoints ''x'' 99 1 1))
   \<and> profileDaily ''x'' 99 1 1 Intense = 83
   \<and> computeDailyDuby (- 1000) Intense (Some (estimateWWPoints ''x'' 99 1 1)) = 83"
  using score_positive [of 99 1 1 "''x''" Intense "- 1000"]
  by (simp add: estimateWWPoints_spec spec_score_def spec_first_is_m_def)


section \<open>Verification: dates and the ledger scan\<close>

lemma scanBudgetToday_find:
  "scanBudgetToday e today rows = map_option (toBudgetRow e) (find (rowMatches e today) rows)"
  by (induction rows) simp_all



lemma scanBudgetToday_Some:
  assumes "scanBudgetToday e today rows = Some br"
  shows "\<exists>i<length rows. rowMatches e today (rows ! i)
           \<and> (\<forall>j<i. \<not> rowMatches e today (rows ! j)) \<and> br = toBudgetRow e (rows ! i)"
proof -
  obtain r where "find (rowMatches e today) rows = Some r" "br = toBudgetRow e r"
    using assms by (auto simp: scanBudgetToday_find)
  then show ?thesis by (auto simp: find_Some_iff)
qed

























lemma apiRequest_out:
  "outage sh (calls sh) \<Longrightarrow> apiRequest m sh = (Inl ApiFailure, tick sh)"
  by (simp add: apiRequest_def)

lemma tick_fields [simp]:
  "tabs (tick sh) = tabs sh" "outage (tick sh) = outage sh" "insertAt (tick sh) = insertAt sh"
  "render (tick sh) = render sh" "calls (tick sh) = Suc (calls sh)"
  by (simp_all add: tick_def)

lemma findTab_tick [simp]: "findTab (tick sh) t = findTab sh t"
  by (simp add: findTab_def)

lemma titlesOf_tick [simp]: "titlesOf (tick sh) = titlesOf sh"
  by (simp add: titlesOf_def)










subsection \<open>Invalid dates\<close>






section \<open>Verification: the user tab\<close>

lemma listSheetTitles_eq:
  "listSheetTitles sh =
     (if outage sh (calls sh) then (Inl ApiFailure, tick sh) else (Inr (titlesOf sh), tick sh))"
  by (simp add: listSheetTitles_def apiRequest_def)

lemma sanitize_nonempty: "sanitizeSheetTitle input \<noteq> []"
  by (simp add: sanitizeSheetTitle_def Let_def)

lemma sanitize_length: "length (sanitizeSheetTitle input) \<le> 80"
  by (simp add: sanitizeSheetTitle_def Let_def)

lemma set_collapseSpaces: "set (collapseSpaces s) \<subseteq> insert CHR '' '' (set s)"
proof (induction s rule: collapseSpaces.induct)
  case 1
  then show ?case by simp
next
  case (2 c cs)
  have "set (dropWhile isSpace cs) \<subseteq> set cs"
    by (rule set_dropWhileD [THEN subsetI])
  with 2 show ?case by auto
qed

lemma not_forbidden_space: "\<not> isForbidden CHR '' ''"
  by (simp add: isForbidden_def)

lemma set_trim: "set (trim s) \<subseteq> set s"
  by (auto simp: trim_def dest!: set_dropWhileD)

lemma sanitize_no_forbidden:
  assumes "c \<in> set (sanitizeSheetTitle input)"
  shows "\<not> isForbidden c"
proof -
  define m where "m = map (\<lambda>c. if isForbidden c then CHR '' '' else c) input"
  define t where "t = trim (collapseSpaces m)"
  have m: "\<forall>x \<in> set m. \<not> isForbidden x"
    by (auto simp: m_def not_forbidden_space)
  have "set t \<subseteq> insert CHR '' '' (set m)"
    unfolding t_def using set_trim set_collapseSpaces by blast
  with m have t: "\<forall>x \<in> set t. \<not> isForbidden x"
    using not_forbidden_space by auto
  have user: "\<forall>x \<in> set ''User''. \<not> isForbidden x"
    by (simp add: isForbidden_def)
  have "sanitizeSheetTitle input = ''User'' \<or> sanitizeSheetTitle input = t
        \<or> sanitizeSheetTitle input = take 80 t"
    by (simp add: sanitizeSheetTitle_def Let_def m_def t_def)
  then have "c \<in> set ''User'' \<or> c \<in> set t"
    using assms by (auto dest: in_set_takeD)
  with t user show ?thesis by blast
qed

lemma sanitize_default:
  "trim (collapseSpaces (map (\<lambda>c. if isForbidden c then CHR '' '' else c) input)) = []
     \<Longrightarrow> sanitizeSheetTitle input = ''User''"
  by (simp add: sanitizeSheetTitle_def Let_def)

lemma ensureUserTab_found:
  assumes "\<not> outage sh (calls sh)"
    and "find (isMatch (sanitizeSheetTitle nm)) (titlesOf sh) = Some t"
  shows "ensureUserTab nm tpl sh = (Inr t, tick sh)"
proof -
  have "t \<in> set (titlesOf sh)"
    using assms(2) by (auto simp: find_Some_iff)
  then have "t \<noteq> []"
    by (simp add: titlesOf_def)
  then show ?thesis
    using assms
    by (simp add: ensureUserTab_def Let_def io_bind_def listSheetTitles_eq io_return_def)
qed

lemma ensureUserTab_not_found:
  assumes "\<not> outage sh (calls sh)"
    and "find (isMatch (sanitizeSheetTitle nm)) (titlesOf sh) = None"
  shows "ensureUserTab nm tpl sh = duplicateUserTemplate nm tpl (tick sh)"
  using assms
  by (simp add: ensureUserTab_def Let_def io_bind_def listSheetTitles_eq)

lemma ensureUserTab_outage:
  "outage sh (calls sh) \<Longrightarrow> ensureUserTab nm tpl sh = (Inl ApiFailure, tick sh)"
  by (simp add: ensureUserTab_def Let_def io_bind_def listSheetTitles_eq)

lemma sanitize_example: "sanitizeSheetTitle ''A/B: Co*mpany'' = ''A B Co mpany''"
  by code_simp


lemma isMatch_self: "isMatch base base"
  by (simp add: isMatch_def)

lemma find_None_append:
  "find P (xs @ ys) = None \<longleftrightarrow> find P xs = None \<and> find P ys = None"
  by (auto simp: find_None_iff)

lemma find_middle:
  assumes "find P (xs @ ys) = None" "P x"
  shows "find P (xs @ [x] @ ys) = Some x"
proof -
  have "\<forall>y \<in> set xs. \<not> P y"
    using assms(1) by (auto simp: find_None_iff)
  then show ?thesis
    using assms(2) by (induction xs) simp_all
qed

lemma duplicateUserTemplate_success:
  assumes "duplicateUserTemplate nm tpl sh = (Inr t, sh')"
  shows "t = (if sanitizeSheetTitle nm \<notin> set (titlesOf sh) then sanitizeSheetTitle nm
              else numbered (sanitizeSheetTitle nm)
                     (uniqueTitle_loop (titlesOf sh) (sanitizeSheetTitle nm) 1))
         \<and> t \<notin> set (map tabTitle (tabs sh))
         \<and> (\<exists>new. tabTitle new = t
               \<and> tabs sh' = take (insertAt sh) (tabs sh) @ [new] @ drop (insertAt sh) (tabs sh))"
  using assms
  by (auto simp: duplicateUserTemplate_def io_bind_def io_return_def io_throw_def
      getSheetIdByTitle_def uniqueTitle_def listSheetTitles_eq apiRequest_def duplicateSheet_def
      Let_def split: if_splits option.splits sum.splits prod.splits)


lemma titlesOf_insert:
  assumes "tabs sh' = take k (tabs sh) @ [new] @ drop k (tabs sh)" "tabTitle new \<noteq> []"
  shows "\<exists>xs ys. titlesOf sh = xs @ ys \<and> titlesOf sh' = xs @ [tabTitle new] @ ys"
proof (intro exI conjI)
  let ?f = "\<lambda>ts. filter (\<lambda>t. t \<noteq> []) (map tabTitle ts)"
  have "?f (take k (tabs sh)) @ ?f (drop k (tabs sh)) = ?f (take k (tabs sh) @ drop k (tabs sh))"
    by (simp only: map_append filter_append)
  also have "\<dots> = titlesOf sh"
    by (simp only: append_take_drop_id titlesOf_def)
  finally show "titlesOf sh = ?f (take k (tabs sh)) @ ?f (drop k (tabs sh))"
    by simp
  show "titlesOf sh' = ?f (take k (tabs sh)) @ [tabTitle new] @ ?f (drop k (tabs sh))"
    using assms by (simp add: titlesOf_def)
qed

lemma ensureUserTab_success:
  assumes "ensureUserTab nm tpl sh = (Inr t, sh')"
  shows "find (isMatch (sanitizeSheetTitle nm)) (titlesOf sh') = Some t"
proof (cases "outage sh (calls sh)")
  case True
  with assms show ?thesis by (simp add: ensureUserTab_outage)
next
  case False
  show ?thesis
  proof (cases "find (isMatch (sanitizeSheetTitle nm)) (titlesOf sh)")
    case (Some t0)
    with False assms have "t0 = t" "sh' = tick sh"
      by (simp_all add: ensureUserTab_found)
    with Some show ?thesis
      by simp
  next
    case None
    then have dup: "duplicateUserTemplate nm tpl (tick sh) = (Inr t, sh')"
      using False assms by (simp add: ensureUserTab_not_found)
    have "sanitizeSheetTitle nm \<notin> set (titlesOf sh)"
      using None isMatch_self by (auto simp: find_None_iff)
    with duplicateUserTemplate_success [OF dup]
    obtain new where t: "t = sanitizeSheetTitle nm" and new: "tabTitle new = t"
        "tabs sh' = take (insertAt sh) (tabs sh) @ [new] @ drop (insertAt sh) (tabs sh)"
      by auto
    from titlesOf_insert [OF new(2)] new(1) t sanitize_nonempty [of nm]
    obtain xs ys where "titlesOf sh = xs @ ys" "titlesOf sh' = xs @ [t] @ ys"
      by auto
    then show ?thesis
      using None find_middle [of "isMatch (sanitizeSheetTitle nm)" xs ys t] isMatch_self t
      by simp
  qed
qed

lemma uniqueTitle_loop_spec:
  "i \<le> uniqueTitle_loop ts b i \<and> numbered b (uniqueTitle_loop ts b i) \<notin> set ts
   \<and> (\<forall>j. i \<le> j \<and> j < uniqueTitle_loop ts b i \<longrightarrow> numbered b j \<in> set ts)"
proof (induction ts b i rule: uniqueTitle_loop.induct)
  case (1 titles base i)
  show ?case
  proof (cases "numbered base i \<in> set titles")
    case True
    then have eq: "uniqueTitle_loop titles base i = uniqueTitle_loop titles base (Suc i)"
      by (simp add: uniqueTitle_loop.simps [of titles base i])
    from 1 [OF True] have ih:
      "Suc i \<le> uniqueTitle_loop titles base (Suc i)"
      "numbered base (uniqueTitle_loop titles base (Suc i)) \<notin> set titles"
      "\<forall>j. Suc i \<le> j \<and> j < uniqueTitle_loop titles base (Suc i) \<longrightarrow> numbered base j \<in> set titles"
      by simp_all
    have "numbered base j \<in> set titles" if "i \<le> j" "j < uniqueTitle_loop titles base (Suc i)" for j
      using that True ih(3) by (cases "j = i") auto
    with ih(1,2) show ?thesis
      unfolding eq by auto
  next
    case False
    then have "uniqueTitle_loop titles base i = i"
      by (simp add: uniqueTitle_loop.simps [of titles base i])
    with False show ?thesis by auto
  qed
qed

lemma uniqueTitle_ok:
  assumes "\<not> outage sh (calls sh)"
  shows "\<exists>u. uniqueTitle base sh = (Inr u, tick sh) \<and> u \<notin> set (titlesOf sh)
           \<and> (base \<notin> set (titlesOf sh) \<longrightarrow> u = base)
           \<and> (base \<in> set (titlesOf sh) \<longrightarrow>
                (\<exists>i\<ge>1. u = numbered base i
                   \<and> (\<forall>j. 1 \<le> j \<and> j < i \<longrightarrow> numbered base j \<in> set (titlesOf sh))))"
proof (cases "base \<in> set (titlesOf sh)")
  case True
  then have "uniqueTitle base sh =
      (Inr (numbered base (uniqueTitle_loop (titlesOf sh) base 1)), tick sh)"
    using assms by (simp add: uniqueTitle_def io_bind_def io_return_def listSheetTitles_eq)
  then show ?thesis
    using True uniqueTitle_loop_spec [of 1 "titlesOf sh" base] by auto
next
  case False
  then have "uniqueTitle base sh = (Inr base, tick sh)"
    using assms by (simp add: uniqueTitle_def io_bind_def io_return_def listSheetTitles_eq)
  then show ?thesis
    using False by simp
qed

lemma ensureUserTab_cases:
  assumes "ensureUserTab nm tpl sh = (Inr t, sh')"
  shows "(find (isMatch (sanitizeSheetTitle nm)) (titlesOf sh) = Some t \<and> tabs sh' = tabs sh)
         \<or> (find (isMatch (sanitizeSheetTitle nm)) (titlesOf sh) = None
              \<and> t = sanitizeSheetTitle nm \<and> t \<notin> set (map tabTitle (tabs sh))
              \<and> (\<exists>new. tabTitle new = t
                    \<and> tabs sh' = take (insertAt sh) (tabs sh) @ [new] @ drop (insertAt sh) (tabs sh)))"
proof (cases "outage sh (calls sh)")
  case True
  with assms show ?thesis by (simp add: ensureUserTab_outage)
next
  case False
  show ?thesis
  proof (cases "find (isMatch (sanitizeSheetTitle nm)) (titlesOf sh)")
    case (Some t0)
    with False assms have "t0 = t" "sh' = tick sh"
      by (simp_all add: ensureUserTab_found)
    with Some show ?thesis
      by simp
  next
    case None
    then have dup: "duplicateUserTemplate nm tpl (tick sh) = (Inr t, sh')"
      using False assms by (simp add: ensureUserTab_not_found)
    have "sanitizeSheetTitle nm \<notin> set (titlesOf sh)"
      using None isMatch_self by (auto simp: find_None_iff)
    with duplicateUserTemplate_success [OF dup] None show ?thesis
      by auto
  qed
qed

lemma spec_title_match_isMatch: "spec_title_match base t \<Longrightarrow> isMatch base t"
  by (auto simp: spec_title_match_def spec_numbered_match_def isMatch_def startsWith_def Let_def)

text \<open>
  Claim C7, as stated, fails: \<open>ensureUserTab\<close> returns an existing title that merely starts
  with \<open><base> (\<close>. With the tabs \<open>UserTemplate\<close> and \<open>Ann (old)\<close>, the name \<open>Ann\<close> gets
  the tab \<open>Ann (old)\<close>, which is neither \<open>Ann\<close> nor \<open>Ann (<n>)\<close> for a number \<open>n\<close>.
\<close>

theorem ensure_user_tab_prefix_counterexample:
  "fst (ensureUserTab ''Ann'' ''UserTemplate''
          (sampleSheets [templateTab, sampleTab ''Ann (old)'' []])) = Inr ''Ann (old)''
   \<and> \<not> spec_title_match (sanitizeSheetTitle ''Ann'') ''Ann (old)''"
  by code_simp

text \<open>
  Claim C7, amended. The sanitizer replaces the forbidden characters by spaces, collapses
  whitespace, trims, defaults to \<open>User\<close> and truncates to 80 characters (so
  \<open>A/B: Co*mpany\<close> gives \<open>A B Co mpany\<close>); its result is never empty, at most 80 characters
  long and free of forbidden characters. \<open>ensureUserTab\<close> returns the first existing title
  that equals the base title or starts with the base title followed by \<open> (\<close> (every title
  the specification names is one of these), and creates nothing then; when it returns after
  finding none, it has cloned a tab under the base title, which no tab had. \<open>uniqueTitle\<close>
  gives the base title when it is free, and else \<open><base> (i)\<close> for the least \<open>i\<close> from 1
  that is free.
\<close>

theorem ensure_user_tab_titles:
  "sanitizeSheetTitle ''A/B: Co*mpany'' = ''A B Co mpany''
   \<and> sanitizeSheetTitle input \<noteq> [] \<and> length (sanitizeSheetTitle input) \<le> 80
   \<and> (\<forall>c \<in> set (sanitizeSheetTitle input). \<not> isForbidden c)
   \<and> (trim (collapseSpaces (map (\<lambda>c. if isForbidden c then CHR '' '' else c) input)) = []
        \<longrightarrow> sanitizeSheetTitle input = ''User'')
   \<and> (spec_title_match base0 t0 \<longrightarrow> isMatch base0 t0)
   \<and> (\<not> outage sh (calls sh) \<and> find (isMatch (sanitizeSheetTitle nm)) (titlesOf sh) = Some t
        \<longrightarrow> ensureUserTab nm tpl sh = (Inr t, tick sh))
   \<and> (ensureUserTab nm2 tpl2 sh2 = (Inr t2, sh2')
        \<longrightarrow> (find (isMatch (sanitizeSheetTitle nm2)) (titlesOf sh2) = Some t2
               \<and> tabs sh2' = tabs sh2)
           \<or> (find (isMatch (sanitizeSheetTitle nm2)) (titlesOf sh2) = None
               \<and> t2 = sanitizeSheetTitle nm2 \<and> t2 \<notin> set (map tabTitle (tabs sh2))
               \<and> (\<exists>new. tabTitle new = t2
                     \<and> tabs sh2' = take (insertAt sh2) (tabs sh2) @ [new]
                                     @ drop (insertAt sh2) (tabs sh2))))
   \<and> (\<not> outage sh3 (calls sh3)
        \<longrightarrow> (\<exists>u. uniqueTitle base sh3 = (Inr u, tick sh3) \<and> u \<notin> set (titlesOf sh3)
               \<and> (base \<notin> set (titlesOf sh3) \<longrightarrow> u = base)
               \<and> (base \<in> set (titlesOf sh3) \<longrightarrow>
                    (\<exists>i\<ge>1. u = numbered base i
                       \<and> (\<forall>j. 1 \<le> j \<and> j < i \<longrightarrow> numbered base j \<in> set (titlesOf sh3))))))"
proof (intro conjI impI ballI)
  show "sanitizeSheetTitle ''A/B: Co*mpany'' = ''A B Co mpany''"
    by (rule sanitize_example)
  show "sanitizeSheetTitle input \<noteq> []"
    by (rule sanitize_nonempty)
  show "length (sanitizeSheetTitle input) \<le> 80"
    by (rule sanitize_length)
  show "\<not> isForbidden c" if "c \<in> set (sanitizeSheetTitle input)" for c
    using that by (rule sanitize_no_forbidden)
  show "sanitizeSheetTitle input = ''User''"
    if "trim (collapseSpaces (map (\<lambda>c. if isForbidden c then CHR '' '' else c) input)) = []"
    using that by (rule sanitize_default)
  show "isMatch base0 t0" if "spec_title_match base0 t0"
    using that by (rule spec_title_match_isMatch)
  show "ensureUserTab nm tpl sh = (Inr t, tick sh)"
    if "\<not> outage sh (calls sh) \<and> find (isMatch (sanitizeSheetTitle nm)) (titlesOf sh) = Some t"
    using that by (simp add: ensureUserTab_found)
  show "(find (isMatch (sanitizeSheetTitle nm2)) (titlesOf sh2) = Some t2
               \<and> tabs sh2' = tabs sh2)
           \<or> (find (isMatch (sanitizeSheetTitle nm2)) (titlesOf sh2) = None
               \<and> t2 = sanitizeSheetTitle nm2 \<and> t2 \<notin> set (map tabTitle (tabs sh2))
               \<and> (\<exists>new. tabTitle new = t2
                     \<and> tabs sh2' = take (insertAt sh2) (tabs sh2) @ [new]
                                     @ drop (insertAt sh2) (tabs sh2)))"
    if "ensureUserTab nm2 tpl2 sh2 = (Inr t2, sh2')"
    using that by (rule ensureUserTab_cases)
  show "\<exists>u. uniqueTitle base sh3 = (Inr u, tick sh3) \<and> u \<notin> set (titlesOf sh3)
               \<and> (base \<notin> set (titlesOf sh3) \<longrightarrow> u = base)
               \<and> (base \<in> set (titlesOf sh3) \<longrightarrow>
                    (\<exists>i\<ge>1. u = numbered base i
                       \<and> (\<forall>j. 1 \<le> j \<and> j < i \<longrightarrow> numbered base j \<in> set (titlesOf sh3))))"
    if "\<not> outage sh3 (calls sh3)"
    using that by (rule uniqueTitle_ok)
qed

end
